theory Spec2Isabelle
  imports Main "HOL-Library.Sublist"
begin

section \<open>Python strings and values\<close>

text \<open>
  A Python \<open>str\<close> is a sequence of code points. The model covers the strings whose code
  points are all below 256: each \<open>char\<close> is one code point, so \<open>length\<close> is Python's
  \<open>len\<close>. On that range \<open>str.lower()\<close> maps \<open>A-Z\<close> and the Latin-1 capitals
  (\<open>0xC0-0xDE\<close> without the multiplication sign \<open>0xD7\<close>) to the code point 32 above,
  and leaves every other code point alone.
\<close>

definition lower_char :: "char \<Rightarrow> char" where
  "lower_char c =
     (let n = (of_char c :: nat) in
      if (65 \<le> n \<and> n \<le> 90) \<or> (192 \<le> n \<and> n \<le> 222 \<and> n \<noteq> 215)
      then char_of (n + 32) else c)"

definition lower :: "string \<Rightarrow> string" where
  "lower s = map lower_char s"

text \<open>\<open>k in s\<close> on strings: \<open>k\<close> occurs in \<open>s\<close> as a contiguous substring.\<close>

fun py_in :: "string \<Rightarrow> string \<Rightarrow> bool" where
  "py_in k [] = (k = [])"
| "py_in k (c # cs) = (prefix k (c # cs) \<or> py_in k cs)"

text \<open>\<open>sep.join(xs)\<close> on a list of strings.\<close>

fun join :: "string \<Rightarrow> string list \<Rightarrow> string" where
  "join sep [] = []"
| "join sep [x] = x"
| "join sep (x # y # ys) = x @ sep @ join sep (y # ys)"

text \<open>
  \<open>str.isspace\<close> on one code point below 256, and \<open>str.strip()\<close>, which removes the
  white space at both ends.
\<close>

definition is_space :: "char \<Rightarrow> bool" where
  "is_space c =
     (let n = (of_char c :: nat) in
      (9 \<le> n \<and> n \<le> 13) \<or> (28 \<le> n \<and> n \<le> 32) \<or> n = 133 \<or> n = 160)"

definition strip :: "string \<Rightarrow> string" where
  "strip s = rev (dropWhile is_space (rev (dropWhile is_space s)))"

text \<open>\<open>str(n)\<close> of an integer: its decimal digits, with a minus sign when negative.\<close>

fun str_of_nat :: "nat \<Rightarrow> string" where
  "str_of_nat n =
     (if n < 10 then [char_of (48 + n)]
      else str_of_nat (n div 10) @ [char_of (48 + n mod 10)])"

declare str_of_nat.simps [simp del]

definition str_of_int :: "int \<Rightarrow> string" where
  "str_of_int i = (if i < 0 then CHR ''-'' # str_of_nat (nat (- i)) else str_of_nat (nat i))"

text \<open>
  \<open>repr\<close> of a string: double quotes when the string has a single quote and no double
  quote, single quotes otherwise; the quote in use and the backslash are escaped, tab,
  newline and carriage return are written \<open>\t\<close>, \<open>\n\<close>, \<open>\r\<close>, and every other
  non-printable code point as \<open>\xNN\<close>.
\<close>

definition hex_digit :: "nat \<Rightarrow> char" where
  "hex_digit d = (if d < 10 then char_of (48 + d) else char_of (87 + d))"

definition repr_char :: "char \<Rightarrow> char \<Rightarrow> string" where
  "repr_char q c =
     (let n = (of_char c :: nat) in
      if c = q \<or> c = CHR 0x5C then [CHR 0x5C, c]
      else if n = 9 then [CHR 0x5C, CHR ''t'']
      else if n = 10 then [CHR 0x5C, CHR ''n'']
      else if n = 13 then [CHR 0x5C, CHR ''r'']
      else if n < 32 \<or> (127 \<le> n \<and> n \<le> 160) \<or> n = 173
      then [CHR 0x5C, CHR ''x'', hex_digit (n div 16), hex_digit (n mod 16)]
      else [c])"

definition repr_str :: "string \<Rightarrow> string" where
  "repr_str s =
     (let q = (if CHR 0x27 \<in> set s \<and> CHR 0x22 \<notin> set s then CHR 0x22 else CHR 0x27)
      in q # concat (map (repr_char q) s) @ [q])"

text \<open>
  The values the repository stores in its context dictionaries: \<open>None\<close>, strings,
  integers, lists of strings and a dictionary of strings (\<open>lab_results\<close>). A dictionary
  is an association list in insertion order; \<open>d[k] = v\<close> replaces the value of a key
  that is present and appends the pair otherwise.
\<close>

datatype pyval =
    PNone
  | PStr string
  | PInt int
  | PList "string list"
  | PDict "(string \<times> string) list"

type_synonym pydict = "(string \<times> pyval) list"

fun dict_set :: "pydict \<Rightarrow> string \<Rightarrow> pyval \<Rightarrow> pydict" where
  "dict_set [] k v = [(k, v)]"
| "dict_set ((k', v') # d) k v = (if k' = k then (k, v) # d else (k', v') # dict_set d k v)"

text \<open>\<open>d.get(k, default)\<close>; \<open>d.get(k)\<close> is \<open>dict_get d k PNone\<close>.\<close>

definition dict_get :: "pydict \<Rightarrow> string \<Rightarrow> pyval \<Rightarrow> pyval" where
  "dict_get d k dflt = (case map_of d k of None \<Rightarrow> dflt | Some v \<Rightarrow> v)"

text \<open>\<open>str(v)\<close>, which is what an f-string field \<open>{v}\<close> renders.\<close>

definition py_str :: "pyval \<Rightarrow> string" where
  "py_str v =
     (case v of
        PNone \<Rightarrow> ''None''
      | PStr s \<Rightarrow> s
      | PInt i \<Rightarrow> str_of_int i
      | PList xs \<Rightarrow> ''['' @ join '', '' (map repr_str xs) @ '']''
      | PDict kvs \<Rightarrow>
          ''{'' @ join '', '' (map (\<lambda>(k, x). repr_str k @ '': '' @ repr_str x) kvs) @ ''}'')"

text \<open>
  Exceptions are values. \<open>AttributeError\<close> carries the type of the object and the
  attribute it lacks; \<open>LLMError\<close> carries the message of whatever the model backend
  raised; \<open>HTTPException\<close> the status code and the detail.
\<close>

datatype error =
    KeyError string
  | AttributeError string string
  | TypeError string
  | LLMError string
  | HTTPException nat string

text \<open>\<open>str(e)\<close> of an exception. \<open>str\<close> of a \<open>KeyError\<close> is the \<open>repr\<close> of the key.\<close>

definition error_str :: "error \<Rightarrow> string" where
  "error_str e =
     (case e of
        KeyError k \<Rightarrow> repr_str k
      | AttributeError ty attr \<Rightarrow>
          [CHR 0x27] @ ty @ [CHR 0x27] @ '' object has no attribute '' @ [CHR 0x27] @ attr @ [CHR 0x27]
      | TypeError m \<Rightarrow> m
      | LLMError m \<Rightarrow> m
      | HTTPException c d \<Rightarrow> str_of_nat c @ '': '' @ d)"

datatype message = SystemMessage string | HumanMessage string | AIMessage string

text \<open>
  The calls a run makes to its collaborators, in order: the model backend, with the
  messages it is given, and the provider task of an escalation, with the context and the
  suggestion. Console output is not modelled. A step yields the events it caused and
  either the exception it raised or its result.
\<close>

datatype event = LLMInvoke "message list" | ProviderTask pydict string

type_synonym 'a result = "event list \<times> (error + 'a)"

definition and_then :: "'a result \<Rightarrow> ('a \<Rightarrow> 'b result) \<Rightarrow> 'b result" where
  "and_then r f =
     (case r of
        (es, Inl e) \<Rightarrow> (es, Inl e)
      | (es, Inr x) \<Rightarrow> (case f x of (es', r') \<Rightarrow> (es @ es', r')))"

text \<open>
  The model backend \<open>llm.invoke(messages)\<close> is a parameter of every run: given the
  messages it either raises (\<open>Inl\<close>, with the exception's message) or returns the
  content of its response. That the call comes back at all, with a response or an
  exception, is part of this parameter and not a property of the repository's code.
\<close>

type_synonym backend = "message list \<Rightarrow> string + string"

section \<open>agent.py: the five-node workflow\<close>

text \<open>
  \<open>AgentState\<close>. A channel that no node has written yet is absent (\<open>None\<close>), and
  reading it raises \<open>KeyError\<close>. For \<open>input\<close>, \<open>None\<close> is Python's \<open>None\<close>, which
  \<open>save_and_respond\<close> stores.
\<close>

record agent_state =
  input :: "string option"
  intent :: "string option"
  context' :: "pydict option"
  suggestion :: "string option"
  escalate :: "bool option"
  chat_history :: "message list"

definition mock_recognize_intent :: "string \<Rightarrow> string" where
  "mock_recognize_intent query =
     (if py_in ''suggestion'' (lower query) \<or> py_in ''tip'' (lower query)
      then ''suggestion_request''
      else if py_in ''explain'' (lower query) \<or> py_in ''what is'' (lower query)
      then ''info_request''
      else ''general_chat'')"

definition mock_load_context :: "string \<Rightarrow> string \<Rightarrow> pydict" where
  "mock_load_context patient_id intent' =
     [(''patient_id'', PStr patient_id),
      (''name'', PStr ''Jane Doe''),
      (''recent_visit'', PStr ''2025-10-28''),
      (''diagnosis'', PStr ''Type 2 Diabetes''),
      (''medication'', PStr ''Metformin 500mg''),
      (''lab_results'', PDict [(''hba1c'', ''7.2%'')])]"

definition mock_create_provider_task :: "pydict \<Rightarrow> string \<Rightarrow> event list" where
  "mock_create_provider_task ctx sugg = [ProviderTask ctx sugg]"

definition receive_query :: "agent_state \<Rightarrow> agent_state result" where
  "receive_query state =
     (case input state of
        None \<Rightarrow> ([], Inl (AttributeError ''NoneType'' ''lower''))
      | Some query \<Rightarrow>
          ([], Inr (state\<lparr>intent := Some (mock_recognize_intent query),
                          chat_history := chat_history state @ [HumanMessage query]\<rparr>)))"

definition fetch_context :: "agent_state \<Rightarrow> agent_state result" where
  "fetch_context state =
     (let patient_id = ''patient-123'' in
      case intent state of
        None \<Rightarrow> ([], Inl (KeyError ''intent''))
      | Some intent' \<Rightarrow>
          ([], Inr (state\<lparr>context' := Some (mock_load_context patient_id intent')\<rparr>)))"

text \<open>
  \<open>context.get('lab_results', {}).get('hba1c')\<close>: the second \<open>get\<close> exists on a
  dictionary only.
\<close>

definition lab_hba1c :: "pydict \<Rightarrow> error + pyval" where
  "lab_hba1c ctx =
     (case dict_get ctx ''lab_results'' (PDict []) of
        PDict kvs \<Rightarrow> Inr (case map_of kvs ''hba1c'' of None \<Rightarrow> PNone | Some x \<Rightarrow> PStr x)
      | PNone \<Rightarrow> Inl (AttributeError ''NoneType'' ''get'')
      | PStr x \<Rightarrow> Inl (AttributeError ''str'' ''get'')
      | PInt i \<Rightarrow> Inl (AttributeError ''int'' ''get'')
      | PList xs \<Rightarrow> Inl (AttributeError ''list'' ''get''))"

definition suggest_prompt :: "pydict \<Rightarrow> error + string" where
  "suggest_prompt ctx =
     (case lab_hba1c ctx of
        Inl e \<Rightarrow> Inl e
      | Inr hba1c \<Rightarrow> Inr (
          ''\<newline>'' @
          ''    You are an AI Communicator for a health platform. You are talking to a patient.\<newline>'' @
          ''    Your tone must be empathetic, clear, and supportive. DO NOT give medical advice,\<newline>'' @
          ''    but you can provide suggestions based on the data.\<newline>'' @
          ''    \<newline>'' @
          ''    Patient Context:\<newline>'' @
          ''    - Name: '' @ py_str (dict_get ctx ''name'' PNone) @ ''\<newline>'' @
          ''    - Diagnosis: '' @ py_str (dict_get ctx ''diagnosis'' PNone) @ ''\<newline>'' @
          ''    - Medication: '' @ py_str (dict_get ctx ''medication'' PNone) @ ''\<newline>'' @
          ''    - Recent HbA1c: '' @ py_str hba1c @ ''\<newline>'' @
          ''\<newline>'' @
          ''    Respond to the user's last message.\<newline>'' @
          ''    ''))"

definition llm_suggest :: "backend \<Rightarrow> agent_state \<Rightarrow> agent_state result" where
  "llm_suggest llm state =
     (case context' state of
        None \<Rightarrow> ([], Inl (KeyError ''context''))
      | Some ctx \<Rightarrow>
          (case suggest_prompt ctx of
             Inl e \<Rightarrow> ([], Inl e)
           | Inr prompt \<Rightarrow>
               (let msgs = SystemMessage prompt # chat_history state in
                case llm msgs of
                  Inl m \<Rightarrow> ([LLMInvoke msgs], Inl (LLMError m))
                | Inr sugg \<Rightarrow>
                    ([LLMInvoke msgs],
                     Inr (state\<lparr>suggestion := Some sugg,
                                chat_history := chat_history state @ [AIMessage sugg]\<rparr>)))))"

definition escalation_keywords :: "string list" where
  "escalation_keywords = [''medication change'', ''severe pain'', ''urgent'', ''dosage'']"

definition escalate_if_needed :: "agent_state \<Rightarrow> agent_state result" where
  "escalate_if_needed state =
     (case suggestion state of
        None \<Rightarrow> ([], Inl (KeyError ''suggestion''))
      | Some sugg \<Rightarrow>
          if list_ex (\<lambda>keyword. py_in keyword (lower sugg)) escalation_keywords
          then (case context' state of
                  None \<Rightarrow> ([], Inl (KeyError ''context''))
                | Some ctx \<Rightarrow>
                    (mock_create_provider_task ctx sugg, Inr (state\<lparr>escalate := Some True\<rparr>)))
          else ([], Inr (state\<lparr>escalate := Some False\<rparr>)))"

definition save_and_respond :: "agent_state \<Rightarrow> agent_state result" where
  "save_and_respond state =
     (case suggestion state of
        None \<Rightarrow> ([], Inl (KeyError ''suggestion''))
      | Some sugg \<Rightarrow> ([], Inr (state\<lparr>input := None\<rparr>)))"

text \<open>
  The compiled graph: the entry point \<open>receive_query\<close> and the edges
  \<open>receive_query \<rightarrow> fetch_context \<rightarrow> llm_suggest \<rightarrow> escalate_if_needed \<rightarrow>
  save_and_respond \<rightarrow> END\<close>. A node that raises ends the run with its exception.
\<close>

definition workflow :: "backend \<Rightarrow> agent_state \<Rightarrow> agent_state result" where
  "workflow llm state =
     and_then (and_then (and_then (and_then (receive_query state)
       fetch_context) (llm_suggest llm)) escalate_if_needed) save_and_respond"

text \<open>
  \<open>app.invoke({"input": query, "chat_history": history}, config)\<close>, as the chat front
  end calls it: the other channels start absent.
\<close>

definition app_invoke :: "backend \<Rightarrow> string \<Rightarrow> message list \<Rightarrow> agent_state result" where
  "app_invoke llm query history =
     workflow llm \<lparr>input = Some query, intent = None, context' = None, suggestion = None,
                    escalate = None, chat_history = history\<rparr>"

section \<open>agent\_graph.py: the two-node healthcare agent\<close>

record graph_state =
  messages :: "message list"
  user_id :: string
  patient_context :: pydict
  response :: string

text \<open>
  The \<open>try\<close> block of \<open>fetch_patient_context\<close> fills the context with the mock data;
  the database and ledger lookups that may raise are comments in the source. The
  parameter \<open>fault\<close> is the message of an exception raised inside the \<open>try\<close> block
  by such a lookup, \<open>None\<close> when nothing raises, as is the case with the mock data.
\<close>

definition mock_patient_context :: pydict where
  "mock_patient_context =
     (let pc = [];
          pc = dict_set pc ''name'' (PStr ''Jane Doe'');
          pc = dict_set pc ''age'' (PInt 45);
          pc = dict_set pc ''email'' (PStr ''jane.doe@example.com'');
          pc = dict_set pc ''medical_history'' (PStr ''Type 2 Diabetes diagnosed in 2020'');
          pc = dict_set pc ''diagnoses'' (PList [''Type 2 Diabetes'', ''Hypertension'']);
          pc = dict_set pc ''medications''
                 (PList [''Metformin 500mg twice daily'', ''Lisinopril 10mg daily'']);
          pc = dict_set pc ''allergies'' (PList [''Penicillin'']);
          pc = dict_set pc ''last_visit'' (PStr ''2025-12-01'');
          pc = dict_set pc ''blockchain_hash'' (PStr ''0x1234567890abcdef...'')
      in pc)"

definition fallback_context :: "string \<Rightarrow> pydict" where
  "fallback_context e =
     [(''name'', PStr ''Patient''),
      (''age'', PStr ''Unknown''),
      (''medical_history'', PStr ''No data available''),
      (''error'', PStr e)]"

definition fetch_patient_context :: "string option \<Rightarrow> graph_state \<Rightarrow> graph_state result" where
  "fetch_patient_context fault state =
     (let pc = (case fault of None \<Rightarrow> mock_patient_context | Some e \<Rightarrow> fallback_context e)
      in ([], Inr (state\<lparr>patient_context := pc\<rparr>)))"

text \<open>
  \<open>", ".join(v)\<close> on a context value: a list of strings is joined, a string is joined
  code point by code point, a dictionary by its keys; \<open>None\<close> and an integer are not
  iterable.
\<close>

definition py_join :: "string \<Rightarrow> pyval \<Rightarrow> error + string" where
  "py_join sep v =
     (case v of
        PList xs \<Rightarrow> Inr (join sep xs)
      | PStr x \<Rightarrow> Inr (join sep (map (\<lambda>c. [c]) x))
      | PDict kvs \<Rightarrow> Inr (join sep (map fst kvs))
      | PNone \<Rightarrow> Inl (TypeError ''can only join an iterable'')
      | PInt i \<Rightarrow> Inl (TypeError ''can only join an iterable''))"

text \<open>\<open>x or y\<close> on strings: \<open>y\<close> when \<open>x\<close> is empty.\<close>

definition str_or :: "string \<Rightarrow> string \<Rightarrow> string" where
  "str_or x y = (if x = [] then y else x)"

text \<open>
  The first half of \<open>generate_response\<close> composes the system prompt from the patient
  context alone. \<open>prompt_template\<close> is its f-string with the six fields as arguments;
  \<open>system_prompt\<close> extracts the patient details and fills them in. The three joins
  stand outside the \<open>try\<close> block, so their \<open>TypeError\<close> leaves the node.
\<close>

definition prompt_template ::
  "string \<Rightarrow> string \<Rightarrow> string \<Rightarrow> string \<Rightarrow> string \<Rightarrow> string \<Rightarrow> string" where
  "prompt_template name age medical_history diagnoses medications allergies =
    ''You are a helpful and empathetic medical assistant AI. \<newline>'' @
     ''\<newline>'' @
     ''You are currently speaking to **'' @ name @ ''**, who is **'' @ age @
     '' years old**.\<newline>'' @
     ''\<newline>'' @
     ''**Patient Medical Context:**\<newline>'' @
     ''- **Medical History:** '' @ medical_history @ ''\<newline>'' @
     ''- **Current Diagnoses:** '' @ diagnoses @ ''\<newline>'' @
     ''- **Current Medications:** '' @ medications @ ''\<newline>'' @
     ''- **Known Allergies:** '' @ allergies @ ''\<newline>'' @
     ''\<newline>'' @
     ''**Important Guidelines:**\<newline>'' @
     ''1. Provide personalized advice based on the patient's specific '' @
     ''medical context\<newline>'' @
     ''2. Always be empathetic and supportive in your tone\<newline>'' @
     ''3. DO NOT provide medical diagnoses or prescribe medications\<newline>'' @
     ''4. If the question requires immediate medical attention, advise the '' @
     ''patient to contact their healthcare provider\<newline>'' @
     ''5. Reference their specific conditions and medications when relevant\<newline>'' @
     ''6. Be clear that you are an AI assistant and not a replacement for '' @
     ''professional medical advice\<newline>'' @
     ''\<newline>'' @
     ''Answer the patient's question based on their medical context while '' @
     ''following these guidelines.''"

definition system_prompt :: "pydict \<Rightarrow> error + string" where
  "system_prompt pc =
     (let name = dict_get pc ''name'' (PStr ''Patient'');
          age = dict_get pc ''age'' (PStr ''Unknown'');
          medical_history = dict_get pc ''medical_history'' (PStr ''No medical history available'')
      in case py_join '', '' (dict_get pc ''diagnoses'' (PList [])) of
           Inl e \<Rightarrow> Inl e
         | Inr diagnoses \<Rightarrow>
        (case py_join '', '' (dict_get pc ''medications'' (PList [])) of
           Inl e \<Rightarrow> Inl e
         | Inr medications \<Rightarrow>
        (case py_join '', '' (dict_get pc ''allergies'' (PList [''None known''])) of
           Inl e \<Rightarrow> Inl e
         | Inr allergies \<Rightarrow>
             Inr (prompt_template (py_str name) (py_str age) (py_str medical_history)
                    (str_or diagnoses ''None on record'')
                    (str_or medications ''None on record'') allergies))))"

definition error_response :: string where
  "error_response =
     ''I apologize, but I'm having trouble processing your request right now. '' @
     ''Please try again or contact your healthcare provider if this is urgent.''"

text \<open>
  The second half runs inside \<open>try\<close>. It first constructs the client,
  \<open>ChatGoogleGenerativeAI(...)\<close>, from the settings of the environment, among them
  \<open>float(os.getenv("LLM_TEMPERATURE", "0.2"))\<close>; the construction can raise. Its outcome
  is the parameter \<open>client\<close>: \<open>Inl\<close> with the message of the exception, or \<open>Inr\<close>
  with the backend. Then the backend is called with the system prompt put once in front
  of the messages. Any exception, of the construction or of the call, is replaced by the
  fixed reply; when the construction raised, the backend is not called.
\<close>

type_synonym client = "string + backend"

definition generate_response :: "client \<Rightarrow> graph_state \<Rightarrow> graph_state result" where
  "generate_response client state =
     (case system_prompt (patient_context state) of
        Inl e \<Rightarrow> ([], Inl e)
      | Inr sp \<Rightarrow>
          (case client of
             Inl m \<Rightarrow>
               ([],
                Inr (state\<lparr>messages := messages state @ [AIMessage error_response],
                           response := error_response\<rparr>))
           | Inr llm \<Rightarrow>
               (let full_messages = SystemMessage sp # messages state in
                case llm full_messages of
                  Inr ai_response \<Rightarrow>
                    ([LLMInvoke full_messages],
                     Inr (state\<lparr>messages := messages state @ [AIMessage ai_response],
                                response := ai_response\<rparr>))
                | Inl m \<Rightarrow>
                    ([LLMInvoke full_messages],
                     Inr (state\<lparr>messages := messages state @ [AIMessage error_response],
                                response := error_response\<rparr>)))))"

text \<open>The compiled graph: \<open>fetch_patient_context \<rightarrow> generate_response \<rightarrow> END\<close>.\<close>

definition healthcare_agent ::
  "string option \<Rightarrow> client \<Rightarrow> graph_state \<Rightarrow> graph_state result" where
  "healthcare_agent fault client state =
     and_then (fetch_patient_context fault state) (generate_response client)"

text \<open>
  \<open>invoke_agent\<close> returns a dictionary with four fixed keys, here a record. An
  exception of the graph is raised again unchanged. In \<open>thread_id or ...\<close> both
  \<open>None\<close> and the empty string select the default.
\<close>

record invoke_result =
  r_response :: string
  r_user_id :: string
  r_thread_id :: string
  r_patient_context :: pydict

definition invoke_agent ::
  "string option \<Rightarrow> client \<Rightarrow> string \<Rightarrow> string \<Rightarrow> string option \<Rightarrow> invoke_result result" where
  "invoke_agent fault client uid msg thread_id =
     (let tid = (case thread_id of
                   None \<Rightarrow> ''thread-'' @ uid
                 | Some t \<Rightarrow> if t = [] then ''thread-'' @ uid else t);
          initial_state = \<lparr>messages = [HumanMessage msg], user_id = uid,
                           patient_context = [], response = []\<rparr>
      in and_then (healthcare_agent fault client initial_state)
           (\<lambda>final_state.
              ([], Inr \<lparr>r_response = response final_state, r_user_id = uid,
                        r_thread_id = tid,
                        r_patient_context = patient_context final_state\<rparr>)))"

section \<open>backend\_api.py: the chat endpoint\<close>

record chat_request =
  req_user_id :: string
  req_message :: string
  req_thread_id :: "string option"

record chat_response =
  resp_response :: string
  resp_user_id :: string
  resp_thread_id :: string
  resp_patient_context :: "pydict option"

text \<open>
  \<open>chat\<close>. The parameter \<open>uuid_hex\<close> is \<open>uuid.uuid4().hex\<close>, the random part of a
  generated thread id. \<open>not s\<close> on a string holds when it is empty.
\<close>

definition chat ::
  "string option \<Rightarrow> client \<Rightarrow> string \<Rightarrow> chat_request \<Rightarrow> chat_response result" where
  "chat fault client uuid_hex request =
     (if req_user_id request = [] \<or> strip (req_user_id request) = []
      then ([], Inl (HTTPException 400 ''user_id is required and cannot be empty''))
      else if req_message request = [] \<or> strip (req_message request) = []
      then ([], Inl (HTTPException 400 ''message is required and cannot be empty''))
      else
        (let generated = ''thread-'' @ req_user_id request @ ''-'' @ take 8 uuid_hex;
             thread_id = (case req_thread_id request of
                            None \<Rightarrow> generated
                          | Some t \<Rightarrow> if t = [] then generated else t)
         in case invoke_agent fault client (req_user_id request) (req_message request)
                   (Some thread_id) of
              (es, Inl (HTTPException c d)) \<Rightarrow> (es, Inl (HTTPException c d))
            | (es, Inl e) \<Rightarrow>
                (es, Inl (HTTPException 500
                           (''Failed to process chat request: '' @ error_str e)))
            | (es, Inr r) \<Rightarrow>
                (es, Inr \<lparr>resp_response = r_response r, resp_user_id = r_user_id r,
                          resp_thread_id = r_thread_id r,
                          resp_patient_context = Some (r_patient_context r)\<rparr>)))"

section \<open>The specification's notions\<close>

text \<open>
  Following the specification's words, not the code: the reply \<open>r\<close> contains the phrase
  \<open>k\<close> case-insensitively when some contiguous part of \<open>r\<close> equals \<open>k\<close> up to the
  case of its letters. No word boundary and no stemming is involved.
\<close>

definition spec_contains_ci :: "string \<Rightarrow> string \<Rightarrow> bool" where
  "spec_contains_ci r k \<longleftrightarrow> (\<exists>pre mid suf. r = pre @ mid @ suf \<and> lower mid = lower k)"

section \<open>Substring search\<close>

lemma py_in_sublist: "py_in k s \<longleftrightarrow> sublist k s"
  by (induction s) (auto simp: sublist_Cons_right)

lemma sublist_lower_iff:
  "sublist k (lower r) \<longleftrightarrow> (\<exists>pre mid suf. r = pre @ mid @ suf \<and> lower mid = k)"
proof
  assume "sublist k (lower r)"
  then obtain ps ss where "map lower_char r = ps @ k @ ss"
    by (auto simp: sublist_def lower_def)
  then have "\<exists>us vs. r = us @ vs \<and> ps = map lower_char us \<and> k @ ss = map lower_char vs"
    by (simp add: map_eq_append_conv)
  then obtain us vs where r: "r = us @ vs" and vs: "k @ ss = map lower_char vs"
    by blast
  from vs have "\<exists>ms ts. vs = ms @ ts \<and> k = map lower_char ms \<and> ss = map lower_char ts"
    by (simp add: append_eq_map_conv)
  then obtain ms ts where "vs = ms @ ts" and "k = map lower_char ms"
    by blast
  with r have "r = us @ ms @ ts \<and> lower ms = k"
    by (simp add: lower_def)
  then show "\<exists>pre mid suf. r = pre @ mid @ suf \<and> lower mid = k"
    by blast
next
  assume "\<exists>pre mid suf. r = pre @ mid @ suf \<and> lower mid = k"
  then obtain pre mid suf where "r = pre @ mid @ suf" and "lower mid = k"
    by blast
  then have "lower r = lower pre @ k @ lower suf"
    by (simp add: lower_def)
  then show "sublist k (lower r)"
    unfolding sublist_def by blast
qed

lemma py_in_lower_spec:
  "lower k = k \<Longrightarrow> py_in k (lower r) \<longleftrightarrow> spec_contains_ci r k"
  by (simp add: py_in_sublist sublist_lower_iff spec_contains_ci_def)

lemma lower_keywords:
  "lower ''medication change'' = ''medication change''"
  "lower ''severe pain'' = ''severe pain''"
  "lower ''urgent'' = ''urgent''"
  "lower ''dosage'' = ''dosage''"
  by code_simp+

section \<open>The Safety Gate\<close>

text \<open>
  Claim C1. For every reply text \<open>r\<close>, \<open>escalate_if_needed\<close> sets \<open>escalate\<close> to true
  if and only if \<open>r\<close> contains, case-insensitively, at least one of the four trigger
  phrases as a substring. The decision is a function of \<open>r\<close> alone; the provider task
  is created exactly when it is true, with the context and the reply. The node reads the
  reply and the context from the state, where the earlier nodes have put them.
\<close>

theorem escalate_iff_trigger_phrase:
  assumes "suggestion state = Some r" and "context' state = Some ctx"
  shows "escalate_if_needed state =
           (if \<exists>k \<in> {''medication change'', ''severe pain'', ''urgent'', ''dosage''}.
                 spec_contains_ci r k
            then [ProviderTask ctx r] else [],
            Inr (state\<lparr>escalate :=
                   Some (\<exists>k \<in> {''medication change'', ''severe pain'', ''urgent'', ''dosage''}.
                           spec_contains_ci r k)\<rparr>))"
  using assms
  by (simp add: escalate_if_needed_def escalation_keywords_def mock_create_provider_task_def
      py_in_lower_spec lower_keywords)


theorem escalate_iff_trigger_phrase_witness:
  "escalate_if_needed
     \<lparr>input = Some ''Any tip?'', intent = Some ''suggestion_request'',
      context' = Some (mock_load_context ''patient-123'' ''suggestion_request''),
      suggestion = Some ''You may need a DOSAGE change'', escalate = None,
      chat_history = []\<rparr> =
   ([ProviderTask (mock_load_context ''patient-123'' ''suggestion_request'')
       ''You may need a DOSAGE change''],
    Inr \<lparr>input = Some ''Any tip?'', intent = Some ''suggestion_request'',
         context' = Some (mock_load_context ''patient-123'' ''suggestion_request''),
         suggestion = Some ''You may need a DOSAGE change'', escalate = Some True,
         chat_history = []\<rparr>) \<and>
   (\<exists>k \<in> {''medication change'', ''severe pain'', ''urgent'', ''dosage''}.
      spec_contains_ci ''You may need a DOSAGE change'' k)"
proof -
  let ?s = "\<lparr>input = Some ''Any tip?'', intent = Some ''suggestion_request'',
      context' = Some (mock_load_context ''patient-123'' ''suggestion_request''),
      suggestion = Some ''You may need a DOSAGE change'', escalate = None,
      chat_history = []\<rparr>"
  have ev: "escalate_if_needed ?s =
     ([ProviderTask (mock_load_context ''patient-123'' ''suggestion_request'')
       ''You may need a DOSAGE change''], Inr (?s\<lparr>escalate := Some True\<rparr>))"
    by code_simp
  have "suggestion ?s = Some ''You may need a DOSAGE change''"
    and "context' ?s = Some (mock_load_context ''patient-123'' ''suggestion_request'')"
    by simp_all
  from escalate_iff_trigger_phrase [OF this] ev show ?thesis
    by (simp split: if_splits)
qed

section \<open>Runs of the workflow of agent.py\<close>

text \<open>
  The prompt of \<open>llm_suggest\<close> is defined on every context that \<open>fetch_context\<close>
  stores, so a run of the workflow is decided by what the backend answers to the one call
  it receives.
\<close>

lemma suggest_prompt_mock: "\<exists>p. suggest_prompt (mock_load_context pid i) = Inr p"
  by (simp add: suggest_prompt_def lab_hba1c_def dict_get_def mock_load_context_def)

lemma and_then_Inr [simp]: "and_then (es, Inr x) f = (es @ fst (f x), snd (f x))"
  by (simp add: and_then_def split: prod.splits)

lemma and_then_Inl [simp]: "and_then (es, Inl e) f = (es, Inl e)"
  by (simp add: and_then_def)

lemma app_invoke_run:
  assumes "suggest_prompt (mock_load_context ''patient-123'' (mock_recognize_intent q)) = Inr p"
  shows "app_invoke llm q h =
     (case llm (SystemMessage p # h @ [HumanMessage q]) of
        Inl m \<Rightarrow> ([LLMInvoke (SystemMessage p # h @ [HumanMessage q])], Inl (LLMError m))
      | Inr t \<Rightarrow>
          (LLMInvoke (SystemMessage p # h @ [HumanMessage q]) #
             (if list_ex (\<lambda>keyword. py_in keyword (lower t)) escalation_keywords
              then [ProviderTask (mock_load_context ''patient-123'' (mock_recognize_intent q)) t]
              else []),
           Inr \<lparr>input = None, intent = Some (mock_recognize_intent q),
                context' = Some (mock_load_context ''patient-123'' (mock_recognize_intent q)),
                suggestion = Some t,
                escalate = Some (list_ex (\<lambda>keyword. py_in keyword (lower t)) escalation_keywords),
                chat_history = h @ [HumanMessage q, AIMessage t]\<rparr>))"
  using assms
  by (simp add: app_invoke_def workflow_def receive_query_def fetch_context_def llm_suggest_def
      escalate_if_needed_def save_and_respond_def mock_create_provider_task_def
      split: sum.splits)


lemma node_history_prefix:
  "receive_query st = (es, Inr st') \<Longrightarrow> prefix (chat_history st) (chat_history st')"
  "fetch_context st = (es, Inr st') \<Longrightarrow> prefix (chat_history st) (chat_history st')"
  "llm_suggest llm st = (es, Inr st') \<Longrightarrow> prefix (chat_history st) (chat_history st')"
  "escalate_if_needed st = (es, Inr st') \<Longrightarrow> prefix (chat_history st) (chat_history st')"
  "save_and_respond st = (es, Inr st') \<Longrightarrow> prefix (chat_history st) (chat_history st')"
  by (auto simp: receive_query_def fetch_context_def llm_suggest_def escalate_if_needed_def
      save_and_respond_def Let_def split: option.splits sum.splits if_splits)

text \<open>
  Claim C4. A run of the workflow on a message \<open>q\<close> and a prior history \<open>h\<close> that
  reaches its terminal state leaves a history of length \<open>length h + 2\<close>: \<open>h\<close>
  followed by the user message and the assistant reply, and nothing else. The only run
  without a terminal state is the one whose backend call raised. No node shortens the
  history: the history a node returns starts with the history it was given.
\<close>

theorem history_grows_by_two:
  "(app_invoke llm q h = (es, Inr fin) \<longrightarrow>
      length (chat_history fin) = length h + 2 \<and>
      (\<exists>t. suggestion fin = Some t \<and> chat_history fin = h @ [HumanMessage q, AIMessage t])) \<and>
   ((\<exists>evs s. app_invoke llm q h = (evs, Inr s)) \<or>
    (\<exists>evs m. app_invoke llm q h = (evs, Inl (LLMError m)))) \<and>
   (node \<in> {receive_query, fetch_context, llm_suggest llm, escalate_if_needed, save_and_respond} \<longrightarrow>
      node st = (es', Inr st') \<longrightarrow> prefix (chat_history st) (chat_history st'))"
proof -
  obtain p where p: "suggest_prompt (mock_load_context ''patient-123'' (mock_recognize_intent q)) = Inr p"
    using suggest_prompt_mock by blast
  note run = app_invoke_run [OF p, of llm h]
  have a: "app_invoke llm q h = (es, Inr fin) \<longrightarrow>
      length (chat_history fin) = length h + 2 \<and>
      (\<exists>t. suggestion fin = Some t \<and> chat_history fin = h @ [HumanMessage q, AIMessage t])"
    unfolding run by (auto split: sum.splits)
  have b: "(\<exists>evs s. app_invoke llm q h = (evs, Inr s)) \<or>
    (\<exists>evs m. app_invoke llm q h = (evs, Inl (LLMError m)))"
    unfolding run by (cases "llm (SystemMessage p # h @ [HumanMessage q])") simp_all
  have c: "node \<in> {receive_query, fetch_context, llm_suggest llm, escalate_if_needed, save_and_respond} \<longrightarrow>
      node st = (es', Inr st') \<longrightarrow> prefix (chat_history st) (chat_history st')"
    using node_history_prefix by blast
  from a b c show ?thesis by blast
qed

theorem history_grows_by_two_witness:
  "snd (app_invoke (\<lambda>msgs. Inr ''Eat more fibre.'') ''Any tip?'' [AIMessage ''Hello'']) =
     Inr \<lparr>input = None, intent = Some ''suggestion_request'',
          context' = Some (mock_load_context ''patient-123'' ''suggestion_request''),
          suggestion = Some ''Eat more fibre.'', escalate = Some False,
          chat_history = [AIMessage ''Hello'', HumanMessage ''Any tip?'',
                          AIMessage ''Eat more fibre.'']\<rparr> \<and>
   length (chat_history \<lparr>input = None, intent = Some ''suggestion_request'',
          context' = Some (mock_load_context ''patient-123'' ''suggestion_request''),
          suggestion = Some ''Eat more fibre.'', escalate = Some False,
          chat_history = [AIMessage ''Hello'', HumanMessage ''Any tip?'',
                          AIMessage ''Eat more fibre.'']\<rparr>) = length [AIMessage ''Hello''] + 2"
proof -
  let ?fin = "\<lparr>input = None, intent = Some ''suggestion_request'',
          context' = Some (mock_load_context ''patient-123'' ''suggestion_request''),
          suggestion = Some ''Eat more fibre.'', escalate = Some False,
          chat_history = [AIMessage ''Hello'', HumanMessage ''Any tip?'',
                          AIMessage ''Eat more fibre.'']\<rparr>"
  let ?run = "app_invoke (\<lambda>msgs. Inr ''Eat more fibre.'') ''Any tip?'' [AIMessage ''Hello'']"
  have ev: "snd ?run = Inr ?fin"
    by code_simp
  then have "?run = (fst ?run, Inr ?fin)"
    by (metis prod.collapse)
  with history_grows_by_two [of "\<lambda>msgs. Inr ''Eat more fibre.''" "''Any tip?''"
      "[AIMessage ''Hello'']" "fst ?run" ?fin]
  have "length (chat_history ?fin) = length [AIMessage ''Hello''] + 2"
    by blast
  with ev show ?thesis by blast
qed

section \<open>The intent of a message\<close>

text \<open>
  A later node reads the state it is given and never its \<open>intent\<close> channel, so the
  intent can be carried through the rest of the run unchanged.
\<close>

lemma llm_suggest_intent:
  "llm_suggest llm (s\<lparr>intent := i\<rparr>) =
     map_prod id (map_sum id (intent_update (\<lambda>_. i))) (llm_suggest llm s)"
  by (simp add: llm_suggest_def Let_def split: option.splits sum.splits)

lemma escalate_if_needed_intent:
  "escalate_if_needed (s\<lparr>intent := i\<rparr>) =
     map_prod id (map_sum id (intent_update (\<lambda>_. i))) (escalate_if_needed s)"
  by (simp add: escalate_if_needed_def mock_create_provider_task_def split: option.splits)

lemma save_and_respond_intent:
  "save_and_respond (s\<lparr>intent := i\<rparr>) =
     map_prod id (map_sum id (intent_update (\<lambda>_. i))) (save_and_respond s)"
  by (simp add: save_and_respond_def split: option.splits)

lemma and_then_map_intent:
  assumes "\<And>s. f (s\<lparr>intent := i\<rparr>) = map_prod id (map_sum id (intent_update (\<lambda>_. i))) (f s)"
  shows "and_then (map_prod id (map_sum id (intent_update (\<lambda>_. i))) r) f =
         map_prod id (map_sum id (intent_update (\<lambda>_. i))) (and_then r f)"
proof (cases r)
  case (Pair es x)
  show ?thesis
  proof (cases x)
    case (Inl e)
    with Pair show ?thesis by simp
  next
    case (Inr s)
    have "intent_update (\<lambda>_. i) s = s\<lparr>intent := i\<rparr>" by simp
    with Pair Inr assms [of s] show ?thesis by simp
  qed
qed

lemma fetch_context_intent:
  "fetch_context (st\<lparr>intent := Some i\<rparr>) =
     ([], Inr (st\<lparr>intent := Some i, context' := Some (mock_load_context ''patient-123'' [])\<rparr>))"
  by (simp add: fetch_context_def mock_load_context_def)

lemma later_nodes_intent:
  "and_then (and_then (and_then (fetch_context (st\<lparr>intent := Some i\<rparr>)) (llm_suggest llm))
      escalate_if_needed) save_and_respond =
   map_prod id (map_sum id (intent_update (\<lambda>_. Some i)))
     (and_then (and_then (and_then
        ([], Inr (st\<lparr>context' := Some (mock_load_context ''patient-123'' [])\<rparr>))
        (llm_suggest llm)) escalate_if_needed) save_and_respond)"
proof -
  have "fetch_context (st\<lparr>intent := Some i\<rparr>) =
      map_prod id (map_sum id (intent_update (\<lambda>_. Some i)))
        ([], Inr (st\<lparr>context' := Some (mock_load_context ''patient-123'' [])\<rparr>))"
    by (simp add: fetch_context_intent)
  then show ?thesis
    by (simp only:
        and_then_map_intent [where f = "llm_suggest llm" and i = "Some i", OF llm_suggest_intent]
        and_then_map_intent [where f = escalate_if_needed and i = "Some i",
          OF escalate_if_needed_intent]
        and_then_map_intent [where f = save_and_respond and i = "Some i",
          OF save_and_respond_intent])
qed

text \<open>
  Claim C10. The first node, \<open>receive_query\<close>, gives every message exactly one
  intent: \<open>suggestion_request\<close> when the lowercased message contains
  \<open>suggestion\<close> or \<open>tip\<close>, otherwise \<open>info_request\<close> when it contains
  \<open>explain\<close> or \<open>what is\<close>, otherwise \<open>general_chat\<close>. The intent has no
  effect on the context that \<open>fetch_context\<close> resolves, and none on what the later
  nodes produce: two runs of the nodes after \<open>receive_query\<close> that differ in the
  intent alone cause the same events and end in the same exception or in states that
  differ in the \<open>intent\<close> channel alone.
\<close>

theorem intent_classification:
  "(input st = Some q \<longrightarrow>
      (\<exists>st'. receive_query st = ([], Inr st') \<and>
         intent st' = Some
           (if sublist ''suggestion'' (lower q) \<or> sublist ''tip'' (lower q)
            then ''suggestion_request''
            else if sublist ''explain'' (lower q) \<or> sublist ''what is'' (lower q)
            then ''info_request''
            else ''general_chat''))) \<and>
   map_sum id context' (snd (fetch_context (st\<lparr>intent := Some i1\<rparr>))) =
   map_sum id context' (snd (fetch_context (st\<lparr>intent := Some i2\<rparr>))) \<and>
   map_prod id (map_sum id (intent_update (\<lambda>_. None)))
     (and_then (and_then (and_then (fetch_context (st\<lparr>intent := Some i1\<rparr>)) (llm_suggest llm))
        escalate_if_needed) save_and_respond) =
   map_prod id (map_sum id (intent_update (\<lambda>_. None)))
     (and_then (and_then (and_then (fetch_context (st\<lparr>intent := Some i2\<rparr>)) (llm_suggest llm))
        escalate_if_needed) save_and_respond)"
proof -
  have a: "input st = Some q \<longrightarrow>
      (\<exists>st'. receive_query st = ([], Inr st') \<and>
         intent st' = Some
           (if sublist ''suggestion'' (lower q) \<or> sublist ''tip'' (lower q)
            then ''suggestion_request''
            else if sublist ''explain'' (lower q) \<or> sublist ''what is'' (lower q)
            then ''info_request''
            else ''general_chat''))"
    by (simp add: receive_query_def mock_recognize_intent_def py_in_sublist)
  have b: "map_sum id context' (snd (fetch_context (st\<lparr>intent := Some i1\<rparr>))) =
           map_sum id context' (snd (fetch_context (st\<lparr>intent := Some i2\<rparr>)))"
    by (simp add: fetch_context_intent)
  have c: "map_prod id (map_sum id (intent_update (\<lambda>_. None)))
     (and_then (and_then (and_then (fetch_context (st\<lparr>intent := Some i1\<rparr>)) (llm_suggest llm))
        escalate_if_needed) save_and_respond) =
   map_prod id (map_sum id (intent_update (\<lambda>_. None)))
     (and_then (and_then (and_then (fetch_context (st\<lparr>intent := Some i2\<rparr>)) (llm_suggest llm))
        escalate_if_needed) save_and_respond)"
    unfolding later_nodes_intent
    by (simp add: prod.map_comp sum.map_comp comp_def)
  from a b c show ?thesis by blast
qed

theorem intent_classification_witness:
  "\<exists>st'. receive_query \<lparr>input = Some ''Any TIP for me?'', intent = None, context' = None,
                         suggestion = None, escalate = None, chat_history = []\<rparr> = ([], Inr st') \<and>
         intent st' = Some ''suggestion_request''"
proof -
  let ?s = "\<lparr>input = Some ''Any TIP for me?'', intent = None, context' = None,
             suggestion = None, escalate = None, chat_history = []\<rparr>"
  have "input ?s = Some ''Any TIP for me?''" by simp
  with intent_classification [of ?s "''Any TIP for me?''"]
  obtain st' where "receive_query ?s = ([], Inr st')"
    and "intent st' = Some
           (if sublist ''suggestion'' (lower ''Any TIP for me?'') \<or>
               sublist ''tip'' (lower ''Any TIP for me?'')
            then ''suggestion_request''
            else if sublist ''explain'' (lower ''Any TIP for me?'') \<or>
                    sublist ''what is'' (lower ''Any TIP for me?'')
            then ''info_request''
            else ''general_chat'')"
    by blast
  moreover have "sublist ''tip'' (lower ''Any TIP for me?'')"
    by code_simp
  ultimately show ?thesis by simp
qed

section \<open>Runs of the healthcare agent of agent\_graph.py\<close>

text \<open>
  The system prompt is defined on both contexts that \<open>fetch_patient_context\<close> can
  store, so \<open>invoke_agent\<close> always returns. When the client could not be constructed
  it calls no backend and answers with the fixed reply; otherwise it calls the backend
  once and answers with the backend's text, or with the fixed reply when the call raised.
\<close>

lemma mock_patient_context_eq:
  "mock_patient_context =
     [(''name'', PStr ''Jane Doe''), (''age'', PInt 45),
      (''email'', PStr ''jane.doe@example.com''),
      (''medical_history'', PStr ''Type 2 Diabetes diagnosed in 2020''),
      (''diagnoses'', PList [''Type 2 Diabetes'', ''Hypertension'']),
      (''medications'', PList [''Metformin 500mg twice daily'', ''Lisinopril 10mg daily'']),
      (''allergies'', PList [''Penicillin'']),
      (''last_visit'', PStr ''2025-12-01''),
      (''blockchain_hash'', PStr ''0x1234567890abcdef...'')]"
  by (simp add: mock_patient_context_def)

lemma system_prompt_fetched:
  "\<exists>sp. system_prompt (case fault of None \<Rightarrow> mock_patient_context
                                    | Some e \<Rightarrow> fallback_context e) = Inr sp"
  by (simp add: system_prompt_def mock_patient_context_eq fallback_context_def dict_get_def
      py_join_def split: option.splits)

lemma invoke_agent_run:
  assumes "system_prompt (case fault of None \<Rightarrow> mock_patient_context
                                      | Some e \<Rightarrow> fallback_context e) = Inr sp"
  shows "invoke_agent fault client uid msg tid =
     (case client of
        Inl m \<Rightarrow> []
      | Inr llm \<Rightarrow> [LLMInvoke [SystemMessage sp, HumanMessage msg]],
      Inr \<lparr>r_response =
             (case client of
                Inl m \<Rightarrow> error_response
              | Inr llm \<Rightarrow>
                  (case llm [SystemMessage sp, HumanMessage msg] of
                     Inl m \<Rightarrow> error_response | Inr t \<Rightarrow> t)),
           r_user_id = uid,
           r_thread_id = (case tid of None \<Rightarrow> ''thread-'' @ uid
                          | Some t \<Rightarrow> if t = [] then ''thread-'' @ uid else t),
           r_patient_context = (case fault of None \<Rightarrow> mock_patient_context
                                | Some e \<Rightarrow> fallback_context e)\<rparr>)"
  using assms
  by (simp add: invoke_agent_def healthcare_agent_def fetch_patient_context_def
      generate_response_def split: sum.splits)

lemma error_response_nonempty: "error_response \<noteq> []"
  by (simp add: error_response_def)

lemma error_response_triggers:
  "list_ex (\<lambda>keyword. py_in keyword (lower error_response)) escalation_keywords"
  by code_simp

section \<open>Termination and the reply\<close>

text \<open>
  A backend that returns the empty text makes both pipelines reply with the empty
  text: neither checks the text it receives.
\<close>

theorem nonempty_reply_counterexample:
  "map_sum id suggestion (snd (app_invoke (\<lambda>msgs. Inr []) ''Hello'' [])) = Inr (Some []) \<and>
   map_sum id r_response
     (snd (invoke_agent None (Inr (\<lambda>msgs. Inr [])) ''patient-123'' ''Hello'' None)) = Inr []"
  by code_simp

text \<open>
  Claim C5, amended. A run has no loop and no retry: it makes at most one backend call,
  and once that call has come back the run returns. Whenever the backend returns a text
  \<open>t\<close>, the reply is \<open>t\<close> in both pipelines, so the reply is non-empty exactly when
  \<open>t\<close> is. In \<open>invoke_agent\<close>, when the construction of the client raises (no backend
  call is made then) or the backend call raises, the reply is the fixed fallback text,
  which is not empty. In the workflow of agent.py an exception of the backend call ends
  the run with that exception and without a reply.
\<close>

theorem run_reply:
  "(\<exists>msgs. (\<exists>m. app_invoke llm q h = ([LLMInvoke msgs], Inl (LLMError m)) \<and> llm msgs = Inl m) \<or>
           (\<exists>evs fin t. app_invoke llm q h = (LLMInvoke msgs # evs, Inr fin) \<and>
                         llm msgs = Inr t \<and> suggestion fin = Some t \<and>
                         (evs = [] \<or> (\<exists>ctx. evs = [ProviderTask ctx t])))) \<and>
   (\<exists>msgs r. invoke_agent fault client uid msg tid =
                (case client of Inl m \<Rightarrow> [] | Inr backend \<Rightarrow> [LLMInvoke msgs], Inr r) \<and>
              r_response r =
                (case client of
                   Inl m \<Rightarrow> error_response
                 | Inr backend \<Rightarrow>
                     (case backend msgs of Inl m \<Rightarrow> error_response | Inr t \<Rightarrow> t))) \<and>
   error_response \<noteq> []"
proof -
  obtain p where p: "suggest_prompt (mock_load_context ''patient-123'' (mock_recognize_intent q)) = Inr p"
    using suggest_prompt_mock by blast
  obtain sp where sp: "system_prompt (case fault of None \<Rightarrow> mock_patient_context
                                      | Some e \<Rightarrow> fallback_context e) = Inr sp"
    using system_prompt_fetched by blast
  have a: "\<exists>msgs. (\<exists>m. app_invoke llm q h = ([LLMInvoke msgs], Inl (LLMError m)) \<and> llm msgs = Inl m) \<or>
           (\<exists>evs fin t. app_invoke llm q h = (LLMInvoke msgs # evs, Inr fin) \<and>
                         llm msgs = Inr t \<and> suggestion fin = Some t \<and>
                         (evs = [] \<or> (\<exists>ctx. evs = [ProviderTask ctx t])))"
    unfolding app_invoke_run [OF p]
    by (cases "llm (SystemMessage p # h @ [HumanMessage q])") auto
  have b: "\<exists>msgs r. invoke_agent fault client uid msg tid =
                (case client of Inl m \<Rightarrow> [] | Inr backend \<Rightarrow> [LLMInvoke msgs], Inr r) \<and>
              r_response r =
                (case client of
                   Inl m \<Rightarrow> error_response
                 | Inr backend \<Rightarrow>
                     (case backend msgs of Inl m \<Rightarrow> error_response | Inr t \<Rightarrow> t))"
    unfolding invoke_agent_run [OF sp] by (cases client) auto
  from a b error_response_nonempty show ?thesis by blast
qed

section \<open>Failure of the context lookup\<close>

text \<open>
  Claim C3. When the lookup inside \<open>fetch_patient_context\<close> raises, the node does
  not raise: it stores the degraded context with \<open>name = "Patient"\<close>,
  \<open>medical_history = "No data available"\<close> and the \<open>error\<close> marker holding the
  exception's message. The run goes on to \<open>generate_response\<close>, and \<open>invoke_agent\<close>
  returns a result, not an exception, carrying that context: with the backend's text, or
  with the fixed reply when the construction of the client or the backend call raised.
\<close>

theorem degraded_context_run:
  "fetch_patient_context (Some e) state = ([], Inr (state\<lparr>patient_context := fallback_context e\<rparr>)) \<and>
   (\<exists>msgs r. invoke_agent (Some e) client uid msg tid =
                (case client of Inl m \<Rightarrow> [] | Inr backend \<Rightarrow> [LLMInvoke msgs], Inr r) \<and>
      r_response r =
        (case client of
           Inl m \<Rightarrow> error_response
         | Inr backend \<Rightarrow> (case backend msgs of Inl m \<Rightarrow> error_response | Inr t \<Rightarrow> t)) \<and>
      map_of (r_patient_context r) ''name'' = Some (PStr ''Patient'') \<and>
      map_of (r_patient_context r) ''medical_history'' = Some (PStr ''No data available'') \<and>
      map_of (r_patient_context r) ''error'' = Some (PStr e))"
proof -
  obtain sp where sp: "system_prompt (case Some e of None \<Rightarrow> mock_patient_context
                                      | Some e \<Rightarrow> fallback_context e) = Inr sp"
    using system_prompt_fetched by blast
  have "\<exists>msgs r. invoke_agent (Some e) client uid msg tid =
                (case client of Inl m \<Rightarrow> [] | Inr backend \<Rightarrow> [LLMInvoke msgs], Inr r) \<and>
      r_response r =
        (case client of
           Inl m \<Rightarrow> error_response
         | Inr backend \<Rightarrow> (case backend msgs of Inl m \<Rightarrow> error_response | Inr t \<Rightarrow> t)) \<and>
      map_of (r_patient_context r) ''name'' = Some (PStr ''Patient'') \<and>
      map_of (r_patient_context r) ''medical_history'' = Some (PStr ''No data available'') \<and>
      map_of (r_patient_context r) ''error'' = Some (PStr e)"
    unfolding invoke_agent_run [OF sp] by (cases client) (auto simp: fallback_context_def)
  then show ?thesis
    by (simp add: fetch_patient_context_def)
qed

section \<open>Failure of the model backend\<close>

text \<open>
  The fixed reply of a failed backend call ends in \<open>if this is urgent\<close>, and
  \<open>urgent\<close> is a trigger phrase: \<open>escalate_if_needed\<close>, given that reply, answers
  true.
\<close>

theorem fallback_not_escalated_counterexample:
  "map_sum id r_response
     (snd (invoke_agent None (Inr (\<lambda>msgs. Inl ''timeout'')) ''patient-123'' ''Hello'' None)) =
     Inr error_response \<and>
   map_sum id escalate
     (snd (escalate_if_needed
        \<lparr>input = Some ''Hello'', intent = Some ''general_chat'',
         context' = Some mock_patient_context, suggestion = Some error_response,
         escalate = None, chat_history = [HumanMessage ''Hello'']\<rparr>)) = Inr (Some True)"
  by code_simp

text \<open>
  Claim C2, amended. When the Model Invoker fails, the run of \<open>invoke_agent\<close> still
  completes and its reply is the fixed fallback text: this holds when the backend call
  raises, and when the construction of the client raises, in which case the backend is
  not called at all. That pipeline has no Safety Gate and sets no escalation flag;
  \<open>escalate_if_needed\<close>, evaluated on the fallback text, answers true and creates the
  provider task, because the text contains the trigger phrase \<open>urgent\<close>.
\<close>

theorem fallback_reply_escalates:
  "(\<exists>msgs r. invoke_agent fault client uid msg tid =
                (case client of Inl m \<Rightarrow> [] | Inr backend \<Rightarrow> [LLMInvoke msgs], Inr r) \<and>
      (case client of
         Inl m \<Rightarrow> r_response r = error_response
       | Inr backend \<Rightarrow> (\<forall>m. backend msgs = Inl m \<longrightarrow> r_response r = error_response))) \<and>
   (suggestion state = Some error_response \<longrightarrow> context' state = Some ctx \<longrightarrow>
      escalate_if_needed state =
        ([ProviderTask ctx error_response], Inr (state\<lparr>escalate := Some True\<rparr>)))"
proof -
  obtain sp where sp: "system_prompt (case fault of None \<Rightarrow> mock_patient_context
                                      | Some e \<Rightarrow> fallback_context e) = Inr sp"
    using system_prompt_fetched by blast
  have a: "\<exists>msgs r. invoke_agent fault client uid msg tid =
                (case client of Inl m \<Rightarrow> [] | Inr backend \<Rightarrow> [LLMInvoke msgs], Inr r) \<and>
      (case client of
         Inl m \<Rightarrow> r_response r = error_response
       | Inr backend \<Rightarrow> (\<forall>m. backend msgs = Inl m \<longrightarrow> r_response r = error_response))"
    unfolding invoke_agent_run [OF sp] by (cases client) auto
  have b: "suggestion state = Some error_response \<longrightarrow> context' state = Some ctx \<longrightarrow>
      escalate_if_needed state =
        ([ProviderTask ctx error_response], Inr (state\<lparr>escalate := Some True\<rparr>))"
    using error_response_triggers
    by (simp add: escalate_if_needed_def mock_create_provider_task_def)
  from a b show ?thesis by blast
qed

theorem fallback_reply_escalates_witness:
  "(\<exists>msgs r. invoke_agent None (Inr (\<lambda>msgs. Inl ''timeout'')) ''patient-123'' ''Hello'' None =
               ([LLMInvoke msgs], Inr r) \<and> r_response r = error_response) \<and>
   (\<exists>r. invoke_agent None (Inl ''could not convert string to float'') ''patient-123''
           ''Hello'' None = ([], Inr r) \<and> r_response r = error_response) \<and>
   escalate_if_needed
     \<lparr>input = Some ''Hello'', intent = Some ''general_chat'',
      context' = Some mock_patient_context, suggestion = Some error_response,
      escalate = None, chat_history = [HumanMessage ''Hello'']\<rparr> =
   ([ProviderTask mock_patient_context error_response],
    Inr \<lparr>input = Some ''Hello'', intent = Some ''general_chat'',
         context' = Some mock_patient_context, suggestion = Some error_response,
         escalate = Some True, chat_history = [HumanMessage ''Hello'']\<rparr>)"
proof -
  let ?st = "\<lparr>input = Some ''Hello'', intent = Some ''general_chat'',
      context' = Some mock_patient_context, suggestion = Some error_response,
      escalate = None, chat_history = [HumanMessage ''Hello'']\<rparr>"
  have s: "suggestion ?st = Some error_response" and c: "context' ?st = Some mock_patient_context"
    by simp_all
  from fallback_reply_escalates [of None "Inr (\<lambda>msgs. Inl ''timeout'')" "''patient-123''"
      "''Hello''" None ?st mock_patient_context] s c
  have a: "\<exists>msgs r. invoke_agent None (Inr (\<lambda>msgs. Inl ''timeout'')) ''patient-123'' ''Hello'' None =
               ([LLMInvoke msgs], Inr r) \<and> r_response r = error_response"
    and g: "escalate_if_needed ?st =
       ([ProviderTask mock_patient_context error_response], Inr (?st\<lparr>escalate := Some True\<rparr>))"
    by auto
  from fallback_reply_escalates [of None "Inl ''could not convert string to float''"
      "''patient-123''" "''Hello''" None ?st mock_patient_context]
  have b: "\<exists>r. invoke_agent None (Inl ''could not convert string to float'') ''patient-123''
           ''Hello'' None = ([], Inr r) \<and> r_response r = error_response"
    by auto
  from a b g show ?thesis by simp
qed

section \<open>The Prompt Composer\<close>

text \<open>
  Claim C6. The system prompt is a function of the patient context alone. Two calls of
  \<open>generate_response\<close> on states with the same patient context, whatever their
  messages, user ids, earlier responses, clients and backends, either both raise the
  same exception while composing, or compose the same system prompt, character for
  character; each call that reaches its backend sends it that prompt in front of its own
  messages, and a call whose client could not be constructed sends nothing. Composing
  causes no event: by its type \<open>system_prompt\<close> returns a string or an exception and
  nothing else.
\<close>

theorem compose_deterministic:
  assumes "patient_context s1 = patient_context s2"
  shows "(\<exists>e. system_prompt (patient_context s1) = Inl e \<and>
              system_prompt (patient_context s2) = Inl e \<and>
              generate_response client1 s1 = ([], Inl e) \<and>
              generate_response client2 s2 = ([], Inl e)) \<or>
         (\<exists>p. system_prompt (patient_context s1) = Inr p \<and>
              system_prompt (patient_context s2) = Inr p \<and>
              fst (generate_response client1 s1) =
                (case client1 of
                   Inl m \<Rightarrow> []
                 | Inr backend \<Rightarrow> [LLMInvoke (SystemMessage p # messages s1)]) \<and>
              fst (generate_response client2 s2) =
                (case client2 of
                   Inl m \<Rightarrow> []
                 | Inr backend \<Rightarrow> [LLMInvoke (SystemMessage p # messages s2)]))"
proof (cases "system_prompt (patient_context s1)")
  case (Inl e)
  with assms show ?thesis
    by (simp add: generate_response_def)
next
  case (Inr p)
  with assms show ?thesis
    by (simp add: generate_response_def Let_def split: sum.splits)
qed

theorem compose_deterministic_witness:
  "\<exists>p. system_prompt mock_patient_context = Inr p \<and>
     fst (generate_response (Inr (\<lambda>msgs. Inr ''Eat more fibre.''))
            \<lparr>messages = [HumanMessage ''What should I eat?''], user_id = ''patient-1'',
             patient_context = mock_patient_context, response = []\<rparr>) =
       [LLMInvoke [SystemMessage p, HumanMessage ''What should I eat?'']] \<and>
     fst (generate_response (Inr (\<lambda>msgs. Inl ''timeout''))
            \<lparr>messages = [HumanMessage ''Hello''], user_id = ''patient-2'',
             patient_context = mock_patient_context, response = ''old''\<rparr>) =
       [LLMInvoke [SystemMessage p, HumanMessage ''Hello'']]"
proof -
  let ?s1 = "\<lparr>messages = [HumanMessage ''What should I eat?''], user_id = ''patient-1'',
             patient_context = mock_patient_context, response = []\<rparr>"
  let ?s2 = "\<lparr>messages = [HumanMessage ''Hello''], user_id = ''patient-2'',
             patient_context = mock_patient_context, response = ''old''\<rparr>"
  have same: "patient_context ?s1 = patient_context ?s2" by simp
  obtain sp where "system_prompt mock_patient_context = Inr sp"
    using system_prompt_fetched [of None] by auto
  then have "\<not> (\<exists>e. system_prompt (patient_context ?s1) = Inl e)" by simp
  with compose_deterministic [OF same, of "Inr (\<lambda>msgs. Inr ''Eat more fibre.'')"
      "Inr (\<lambda>msgs. Inl ''timeout'')"]
  show ?thesis by auto
qed

text \<open>
  A context without name, age, medical history and allergies is rendered with the
  defaults \<open>Patient\<close>, \<open>Unknown\<close>, \<open>No medical history available\<close> and
  \<open>None known\<close>; the words \<open>none on record\<close> occur nowhere in that prompt, in
  any case of letters.
\<close>

theorem none_on_record_counterexample:
  "system_prompt [(''diagnoses'', PList [''Asthma'']), (''medications'', PList [''Salbutamol''])] =
     Inr (prompt_template ''Patient'' ''Unknown'' ''No medical history available''
            ''Asthma'' ''Salbutamol'' ''None known'') \<and>
   \<not> py_in ''none on record''
        (lower (prompt_template ''Patient'' ''Unknown'' ''No medical history available''
                  ''Asthma'' ''Salbutamol'' ''None known''))"
  by code_simp

text \<open>
  Claim C7, amended. An attribute that is missing from the context is never left out
  of the system prompt: its field is filled with a fixed default, which is
  \<open>None on record\<close> for the diagnoses and the medications, \<open>Patient\<close> for the
  name, \<open>Unknown\<close> for the age, \<open>No medical history available\<close> for the medical
  history and \<open>None known\<close> for the allergies.
\<close>

theorem missing_attribute_defaults:
  assumes "system_prompt pc = Inr p"
  shows "\<exists>n a h d m al. p = prompt_template n a h d m al \<and>
           (map_of pc ''name'' = None \<longrightarrow> n = ''Patient'') \<and>
           (map_of pc ''age'' = None \<longrightarrow> a = ''Unknown'') \<and>
           (map_of pc ''medical_history'' = None \<longrightarrow> h = ''No medical history available'') \<and>
           (map_of pc ''diagnoses'' = None \<longrightarrow> d = ''None on record'') \<and>
           (map_of pc ''medications'' = None \<longrightarrow> m = ''None on record'') \<and>
           (map_of pc ''allergies'' = None \<longrightarrow> al = ''None known'')"
proof -
  from assms obtain d m al where
    d: "py_join '', '' (dict_get pc ''diagnoses'' (PList [])) = Inr d" and
    m: "py_join '', '' (dict_get pc ''medications'' (PList [])) = Inr m" and
    al: "py_join '', '' (dict_get pc ''allergies'' (PList [''None known''])) = Inr al" and
    p: "p = prompt_template (py_str (dict_get pc ''name'' (PStr ''Patient'')))
              (py_str (dict_get pc ''age'' (PStr ''Unknown'')))
              (py_str (dict_get pc ''medical_history'' (PStr ''No medical history available'')))
              (str_or d ''None on record'') (str_or m ''None on record'') al"
    by (auto simp: system_prompt_def Let_def split: sum.splits)
  let ?n = "py_str (dict_get pc ''name'' (PStr ''Patient''))"
  let ?a = "py_str (dict_get pc ''age'' (PStr ''Unknown''))"
  let ?h = "py_str (dict_get pc ''medical_history'' (PStr ''No medical history available''))"
  let ?d = "str_or d ''None on record''"
  let ?m = "str_or m ''None on record''"
  have n: "map_of pc ''name'' = None \<longrightarrow> ?n = ''Patient''"
    and a: "map_of pc ''age'' = None \<longrightarrow> ?a = ''Unknown''"
    and h: "map_of pc ''medical_history'' = None \<longrightarrow> ?h = ''No medical history available''"
    by (simp_all add: dict_get_def py_str_def)
  from d have d': "map_of pc ''diagnoses'' = None \<longrightarrow> ?d = ''None on record''"
    by (auto simp: dict_get_def py_join_def str_or_def)
  from m have m': "map_of pc ''medications'' = None \<longrightarrow> ?m = ''None on record''"
    by (auto simp: dict_get_def py_join_def str_or_def)
  from al have al': "map_of pc ''allergies'' = None \<longrightarrow> al = ''None known''"
    by (auto simp: dict_get_def py_join_def)
  show ?thesis
    by (rule exI [of _ ?n], rule exI [of _ ?a], rule exI [of _ ?h], rule exI [of _ ?d],
        rule exI [of _ ?m], rule exI [of _ al]) (intro conjI p n a h d' m' al')
qed

theorem missing_attribute_defaults_witness:
  "system_prompt [] =
     Inr (prompt_template ''Patient'' ''Unknown'' ''No medical history available''
            ''None on record'' ''None on record'' ''None known'') \<and>
   (\<exists>n a h d m al.
      prompt_template ''Patient'' ''Unknown'' ''No medical history available''
        ''None on record'' ''None on record'' ''None known'' = prompt_template n a h d m al \<and>
      n = ''Patient'' \<and> a = ''Unknown'' \<and> h = ''No medical history available'' \<and>
      d = ''None on record'' \<and> m = ''None on record'' \<and> al = ''None known'')"
proof -
  have ev: "system_prompt [] =
     Inr (prompt_template ''Patient'' ''Unknown'' ''No medical history available''
            ''None on record'' ''None on record'' ''None known'')"
    by (simp add: system_prompt_def dict_get_def py_join_def py_str_def str_or_def)
  from missing_attribute_defaults [OF ev] ev show ?thesis
    by simp
qed

section \<open>The resolved context\<close>

text \<open>
  \<open>mock_load_context\<close> of agent.py stores the identifier it is given under
  \<open>patient_id\<close>, so two identifiers give two contexts.
\<close>

theorem context_depends_on_id_counterexample:
  "mock_load_context ''patient-1'' ''general_chat'' \<noteq>
   mock_load_context ''patient-2'' ''general_chat''"
  by (simp add: mock_load_context_def)

text \<open>
  Claim C9, amended. A lookup of \<open>fetch_patient_context\<close> that does not raise
  stores the same fixed context for every user id (name \<open>Jane Doe\<close>, age 45, the
  Type 2 Diabetes history, and no field for the user id), and so does every run of
  \<open>invoke_agent\<close>. \<open>mock_load_context\<close> of agent.py returns a context whose field
  \<open>patient_id\<close> is the identifier it is given and whose other fields are fixed; the
  node \<open>fetch_context\<close> always calls it with the constant \<open>patient-123\<close>.
\<close>

theorem resolved_context_fixed:
  "map_sum id patient_context (snd (fetch_patient_context None (s1\<lparr>user_id := u1\<rparr>))) =
     Inr mock_patient_context \<and>
   map_sum id patient_context (snd (fetch_patient_context None (s2\<lparr>user_id := u2\<rparr>))) =
     Inr mock_patient_context \<and>
   map_of mock_patient_context ''name'' = Some (PStr ''Jane Doe'') \<and>
   map_of mock_patient_context ''age'' = Some (PInt 45) \<and>
   map_of mock_patient_context ''medical_history'' =
     Some (PStr ''Type 2 Diabetes diagnosed in 2020'') \<and>
   map_of mock_patient_context ''user_id'' = None \<and>
   map_sum id r_patient_context (snd (invoke_agent None client1 u1 m1 t1)) =
   map_sum id r_patient_context (snd (invoke_agent None client2 u2 m2 t2)) \<and>
   map_of (mock_load_context u1 i1) ''patient_id'' = Some (PStr u1) \<and>
   (k \<noteq> ''patient_id'' \<longrightarrow>
      map_of (mock_load_context u1 i1) k = map_of (mock_load_context u2 i2) k) \<and>
   (intent st = Some i \<longrightarrow>
      fetch_context st =
        ([], Inr (st\<lparr>context' := Some (mock_load_context ''patient-123'' i)\<rparr>)))"
proof -
  obtain sp where sp: "system_prompt (case None of None \<Rightarrow> mock_patient_context
                                      | Some e \<Rightarrow> fallback_context e) = Inr sp"
    using system_prompt_fetched by blast
  have a: "map_sum id patient_context (snd (fetch_patient_context None s)) =
     Inr mock_patient_context" for s
    by (simp add: fetch_patient_context_def)
  have b: "map_of mock_patient_context ''name'' = Some (PStr ''Jane Doe'')"
    "map_of mock_patient_context ''age'' = Some (PInt 45)"
    "map_of mock_patient_context ''medical_history'' =
       Some (PStr ''Type 2 Diabetes diagnosed in 2020'')"
    "map_of mock_patient_context ''user_id'' = None"
    by (simp_all add: mock_patient_context_eq)
  have c: "map_sum id r_patient_context (snd (invoke_agent None client1 u1 m1 t1)) =
           map_sum id r_patient_context (snd (invoke_agent None client2 u2 m2 t2))"
    by (simp add: invoke_agent_run [OF sp])
  have d: "map_of (mock_load_context u1 i1) ''patient_id'' = Some (PStr u1)"
    by (simp add: mock_load_context_def)
  have e: "k \<noteq> ''patient_id'' \<longrightarrow>
      map_of (mock_load_context u1 i1) k = map_of (mock_load_context u2 i2) k"
    by (simp add: mock_load_context_def)
  have f: "intent st = Some i \<longrightarrow>
      fetch_context st =
        ([], Inr (st\<lparr>context' := Some (mock_load_context ''patient-123'' i)\<rparr>))"
    by (simp add: fetch_context_def)
  from a [of "s1\<lparr>user_id := u1\<rparr>"] a [of "s2\<lparr>user_id := u2\<rparr>"] b c d e f show ?thesis
    by (intro conjI)
qed

theorem resolved_context_fixed_witness:
  "map_sum id r_patient_context
     (snd (invoke_agent None (Inr (\<lambda>msgs. Inr ''Hi'')) ''patient-1'' ''Hello'' None)) =
   map_sum id r_patient_context
     (snd (invoke_agent None (Inr (\<lambda>msgs. Inl ''timeout'')) ''patient-2'' ''Bye''
            (Some ''t1''))) \<and>
   map_of (mock_load_context ''patient-1'' ''general_chat'') ''name'' =
   map_of (mock_load_context ''patient-2'' ''info_request'') ''name'' \<and>
   fetch_context \<lparr>input = Some ''Hello'', intent = Some ''general_chat'', context' = None,
                  suggestion = None, escalate = None, chat_history = [HumanMessage ''Hello'']\<rparr> =
     ([], Inr \<lparr>input = Some ''Hello'', intent = Some ''general_chat'',
               context' = Some (mock_load_context ''patient-123'' ''general_chat''),
               suggestion = None, escalate = None,
               chat_history = [HumanMessage ''Hello'']\<rparr>)"
proof -
  let ?st = "\<lparr>input = Some ''Hello'', intent = Some ''general_chat'', context' = None,
              suggestion = None, escalate = None, chat_history = [HumanMessage ''Hello'']\<rparr>"
  have ne: "''name'' \<noteq> ''patient_id''" by simp
  have it: "intent ?st = Some ''general_chat''" by simp
  from resolved_context_fixed [where ?u1.0 = "''patient-1''" and ?u2.0 = "''patient-2''"
      and ?client1.0 = "Inr (\<lambda>msgs. Inr ''Hi'')" and ?m1.0 = "''Hello''" and ?t1.0 = None
      and ?client2.0 = "Inr (\<lambda>msgs. Inl ''timeout'')" and ?m2.0 = "''Bye''" and ?t2.0 = "Some ''t1''"
      and ?i1.0 = "''general_chat''" and k = "''name''" and ?i2.0 = "''info_request''"
      and st = ?st and i = "''general_chat''"] ne it
  show ?thesis by simp
qed

section \<open>Validation of the user id\<close>

text \<open>
  \<open>invoke_agent\<close> does not look at the user id: with the empty user id it runs
  both nodes, calls the backend and returns a reply.
\<close>

theorem empty_user_id_counterexample:
  "invoke_agent None (Inr (\<lambda>msgs. Inr ''How can I help?'')) [] ''Hello'' None =
     ([LLMInvoke [SystemMessage
         (prompt_template ''Jane Doe'' ''45'' ''Type 2 Diabetes diagnosed in 2020''
            ''Type 2 Diabetes, Hypertension''
            ''Metformin 500mg twice daily, Lisinopril 10mg daily'' ''Penicillin''),
         HumanMessage ''Hello'']],
      Inr \<lparr>r_response = ''How can I help?'', r_user_id = [], r_thread_id = ''thread-'',
           r_patient_context = mock_patient_context\<rparr>)"
  by code_simp

text \<open>
  Claim C8, amended. The check is in the HTTP layer: when the user id is empty or
  white space only, \<open>chat\<close> fails with the HTTP status 400 and the detail
  \<open>user_id is required and cannot be empty\<close> before \<open>invoke_agent\<close> is called, so
  no state is built and no context lookup, backend call or provider task happens. The
  run operation itself, \<open>invoke_agent\<close>, checks nothing.
\<close>

theorem empty_user_id_rejected_by_chat:
  assumes "strip (req_user_id request) = []"
  shows "chat fault client uuid_hex request =
           ([], Inl (HTTPException 400 ''user_id is required and cannot be empty''))"
  using assms by (simp add: chat_def)

theorem empty_user_id_rejected_by_chat_witness:
  "chat None (Inr (\<lambda>msgs. Inr ''How can I help?'')) ''0123456789abcdef0123456789abcdef''
     \<lparr>req_user_id = [], req_message = ''Hello'', req_thread_id = None\<rparr> =
   ([], Inl (HTTPException 400 ''user_id is required and cannot be empty''))"
proof -
  have "strip (req_user_id \<lparr>req_user_id = [], req_message = ''Hello'', req_thread_id = None\<rparr>) = []"
    by (simp add: strip_def)
  from empty_user_id_rejected_by_chat [OF this] show ?thesis .
qed

end
